theory Spec2Isabelle
  imports Complex_Main
begin

section \<open>NonlinearSolver::Init\<close>

text \<open>
  \<open>NonlinearSolver::Init\<close> copies five fields of the input block into the solver object
  and then issues a fixed sequence of calls to the external solver library. The embedding
  keeps both effects: the members of the object are a record that is passed through, and
  the library calls are recorded, in program order and with their arguments, as a list of
  events. No return code of a library call is inspected by the source, so none is modelled,
  and the function has no branch that ends in an error.

  The two enumerations \<open>NonlinearSolverType\<close> and \<open>LineSearchType\<close> are declared in headers
  that are not part of the sources at hand. Their members are the tags that \<open>Init\<close>
  compares against; a further constructor stands for any value that equals none of these
  tags, which is the case in which no comparison of the source succeeds.
\<close>

datatype NonlinearSolverType =
    NewtonRaphson
  | SNESNewtonLs
  | SNESNewtonTr
  | SNESLBfgs
  | SNESBroyden
  | SNESBadBroyden
  | SNESNewtonCG
  | SNESNewtonGMRES
  | OtherSolverType nat

datatype LineSearchType =
    LineSearchDefault
  | LineSearchBackTrace
  | LineSearchCP
  | LineSearchL2
  | LineSearchBasic
  | OtherLineSearchType nat

text \<open>
  The block that \<open>Init\<close> reads. The tolerances are \<open>double\<close>s that are only copied and
  handed on, never computed with; they are modelled as real numbers.
\<close>

record NonlinearSolverBlock =
  b_SolverType :: NonlinearSolverType
  b_MaxIters :: int
  b_RAbsTol :: real
  b_RRelTol :: real
  b_STol :: real
  b_LineSearchType :: LineSearchType
  b_LineSearchOrder :: int

text \<open>
  Library objects. \<open>SNESCreate\<close> makes the one outer solver of an \<open>Init\<close> run; the getters
  return the object owned by their argument. \<open>Prior\<close> stands for whatever a handle member
  held before \<open>Init\<close> ran.
\<close>

datatype handle =
    Prior nat
  | CreatedSNES
  | KSP_of handle
  | PC_of handle
  | LineSearch_of handle

datatype snes_type = SNESNEWTONLS | SNESNEWTONTR | SNESQN | SNESNCG | SNESNGMRES

datatype qn_type = SNES_QN_LBFGS | SNES_QN_BROYDEN | SNES_QN_BADBROYDEN

datatype linesearch_strategy =
    SNESLINESEARCHBASIC
  | SNESLINESEARCHBT
  | SNESLINESEARCHCP
  | SNESLINESEARCHL2

datatype pc_type = PCLU

text \<open>A real argument of a library call: a value, or the library's macro \<open>PETSC_DEFAULT\<close>.\<close>

datatype petsc_real = RealVal real | PETSC_DEFAULT

text \<open>
  The library calls that occur in \<open>Init\<close>, each with the handle it is applied to and its
  further arguments in the order of the source. For the two getters and for \<open>SNESCreate\<close>
  the output pointer is left out: the member it writes is updated in the record.
\<close>

datatype petsc_call =
    SNESCreate
  | SNESGetKSP handle
  | KSPSetTolerances handle petsc_real petsc_real petsc_real int
  | KSPGMRESSetRestart handle int
  | KSPGetPC handle
  | PCSetType handle pc_type
  | KSPSetFromOptions handle
  | SNESSetTolerances handle real real real int int
  | SNESSetType handle snes_type
  | SNESQNSetType handle qn_type
  | SNESGetLineSearch handle
  | SNESLineSearchSetType handle linesearch_strategy
  | SNESLineSearchSetOrder handle int

text \<open>The members of the \<open>NonlinearSolver\<close> object that \<open>Init\<close> reads or writes.\<close>

record NonlinearSolver =
  s_SolverType :: NonlinearSolverType
  s_MaxIters :: int
  s_RAbsTol :: real
  s_RRelTol :: real
  s_STol :: real
  s_snes :: handle
  s_ksp :: handle
  s_pc :: handle
  s_linesearch :: handle

text \<open>
  Lines 14 to 39: the five members are copied, the outer solver is created, its inner
  linear solver and preconditioner are fetched and configured, and the outer tolerances
  are set.
\<close>

definition init_setup ::
  "NonlinearSolver \<Rightarrow> NonlinearSolverBlock \<Rightarrow> NonlinearSolver \<times> petsc_call list" where
  "init_setup this blk =
    (let s1 = this\<lparr>s_SolverType := b_SolverType blk,
                   s_MaxIters := b_MaxIters blk,
                   s_RAbsTol := b_RAbsTol blk,
                   s_RRelTol := b_RRelTol blk,
                   s_STol := b_STol blk\<rparr>;
         s2 = s1\<lparr>s_snes := CreatedSNES\<rparr>;
         s3 = s2\<lparr>s_ksp := KSP_of (s_snes s2)\<rparr>;
         s4 = s3\<lparr>s_pc := PC_of (s_ksp s3)\<rparr>
     in (s4,
         [SNESCreate,
          SNESGetKSP (s_snes s2),
          KSPSetTolerances (s_ksp s3) (RealVal (1 / 10 ^ 10)) (RealVal (1 / 10 ^ 10))
            PETSC_DEFAULT 500000,
          KSPGMRESSetRestart (s_ksp s3) 1200,
          KSPGetPC (s_ksp s3),
          PCSetType (s_pc s4) PCLU,
          KSPSetFromOptions (s_ksp s4),
          SNESSetTolerances (s_snes s4) (s_RAbsTol s4) (s_RRelTol s4) (s_STol s4)
            (s_MaxIters s4) (- 1)]))"

text \<open>
  The chain \<open>if Default \<dots> else if BackTrace \<dots> else if CP \<dots> else if L2 \<dots> else if Basic\<close>
  stands eight times in the source, once in every branch of the dispatch, and differs
  only in the strategy set in its first arm, which is the parameter \<open>dflt\<close> here. A value
  of the enumeration that equals none of the five tags falls through all arms.
\<close>

fun linesearch_chain :: "handle \<Rightarrow> linesearch_strategy \<Rightarrow> LineSearchType \<Rightarrow> petsc_call list" where
  "linesearch_chain ls dflt LineSearchDefault = [SNESLineSearchSetType ls dflt]"
| "linesearch_chain ls dflt LineSearchBackTrace = [SNESLineSearchSetType ls SNESLINESEARCHBT]"
| "linesearch_chain ls dflt LineSearchCP = [SNESLineSearchSetType ls SNESLINESEARCHCP]"
| "linesearch_chain ls dflt LineSearchL2 = [SNESLineSearchSetType ls SNESLINESEARCHL2]"
| "linesearch_chain ls dflt LineSearchBasic = [SNESLineSearchSetType ls SNESLINESEARCHBASIC]"
| "linesearch_chain ls dflt (OtherLineSearchType k) = []"

text \<open>
  Lines 43 to 201: the dispatch on \<open>_SolverType\<close>. Every branch sets the outer method,
  fetches the line-search object into \<open>_linesearch\<close> and runs the chain; the
  \<open>SNESNewtonLs\<close> branch first sets the L2 strategy, and only the first two branches set
  the order. A tag outside the eight falls through: nothing is called and no member is
  written.
\<close>

fun init_dispatch ::
  "NonlinearSolver \<Rightarrow> NonlinearSolverBlock \<Rightarrow> NonlinearSolverType \<Rightarrow>
     NonlinearSolver \<times> petsc_call list" where
  "init_dispatch s blk NewtonRaphson =
    (let s' = s\<lparr>s_linesearch := LineSearch_of (s_snes s)\<rparr>
     in (s', [SNESSetType (s_snes s) SNESNEWTONLS, SNESGetLineSearch (s_snes s)]
             @ linesearch_chain (s_linesearch s') SNESLINESEARCHBASIC (b_LineSearchType blk)
             @ [SNESLineSearchSetOrder (s_linesearch s') (b_LineSearchOrder blk)]))"
| "init_dispatch s blk SNESNewtonLs =
    (let s' = s\<lparr>s_linesearch := LineSearch_of (s_snes s)\<rparr>
     in (s', [SNESSetType (s_snes s) SNESNEWTONLS, SNESGetLineSearch (s_snes s),
              SNESLineSearchSetType (s_linesearch s') SNESLINESEARCHL2]
             @ linesearch_chain (s_linesearch s') SNESLINESEARCHBT (b_LineSearchType blk)
             @ [SNESLineSearchSetOrder (s_linesearch s') (b_LineSearchOrder blk)]))"
| "init_dispatch s blk SNESNewtonTr =
    (let s' = s\<lparr>s_linesearch := LineSearch_of (s_snes s)\<rparr>
     in (s', [SNESSetType (s_snes s) SNESNEWTONTR, SNESGetLineSearch (s_snes s)]
             @ linesearch_chain (s_linesearch s') SNESLINESEARCHBASIC (b_LineSearchType blk)))"
| "init_dispatch s blk SNESLBfgs =
    (let s' = s\<lparr>s_linesearch := LineSearch_of (s_snes s)\<rparr>
     in (s', [SNESSetType (s_snes s) SNESQN, SNESQNSetType (s_snes s) SNES_QN_LBFGS,
              SNESGetLineSearch (s_snes s)]
             @ linesearch_chain (s_linesearch s') SNESLINESEARCHCP (b_LineSearchType blk)))"
| "init_dispatch s blk SNESBroyden =
    (let s' = s\<lparr>s_linesearch := LineSearch_of (s_snes s)\<rparr>
     in (s', [SNESSetType (s_snes s) SNESQN, SNESQNSetType (s_snes s) SNES_QN_BROYDEN,
              SNESGetLineSearch (s_snes s)]
             @ linesearch_chain (s_linesearch s') SNESLINESEARCHBASIC (b_LineSearchType blk)))"
| "init_dispatch s blk SNESBadBroyden =
    (let s' = s\<lparr>s_linesearch := LineSearch_of (s_snes s)\<rparr>
     in (s', [SNESSetType (s_snes s) SNESQN, SNESQNSetType (s_snes s) SNES_QN_BADBROYDEN,
              SNESGetLineSearch (s_snes s)]
             @ linesearch_chain (s_linesearch s') SNESLINESEARCHL2 (b_LineSearchType blk)))"
| "init_dispatch s blk SNESNewtonCG =
    (let s' = s\<lparr>s_linesearch := LineSearch_of (s_snes s)\<rparr>
     in (s', [SNESSetType (s_snes s) SNESNCG, SNESGetLineSearch (s_snes s)]
             @ linesearch_chain (s_linesearch s') SNESLINESEARCHCP (b_LineSearchType blk)))"
| "init_dispatch s blk SNESNewtonGMRES =
    (let s' = s\<lparr>s_linesearch := LineSearch_of (s_snes s)\<rparr>
     in (s', [SNESSetType (s_snes s) SNESNGMRES, SNESGetLineSearch (s_snes s)]
             @ linesearch_chain (s_linesearch s') SNESLINESEARCHL2 (b_LineSearchType blk)))"
| "init_dispatch s blk (OtherSolverType k) = (s, [])"

text \<open>Line 203: the order is set on \<open>_linesearch\<close>, whatever that member holds.\<close>

definition init_trailing :: "NonlinearSolver \<Rightarrow> NonlinearSolverBlock \<Rightarrow> petsc_call list" where
  "init_trailing s blk = [SNESLineSearchSetOrder (s_linesearch s) (b_LineSearchOrder blk)]"

text \<open>
  The whole of \<open>Init\<close>: the object after the call and the library calls made, in order.
  The dispatch compares the member \<open>_SolverType\<close>, which line 14 has set from the block.
\<close>

definition Init ::
  "NonlinearSolver \<Rightarrow> NonlinearSolverBlock \<Rightarrow> NonlinearSolver \<times> petsc_call list" where
  "Init this blk =
    (let (s1, t1) = init_setup this blk;
         (s2, t2) = init_dispatch s1 blk (s_SolverType s1)
     in (s2, t1 @ t2 @ init_trailing s2 blk))"

definition Init_calls :: "NonlinearSolver \<Rightarrow> NonlinearSolverBlock \<Rightarrow> petsc_call list" where
  "Init_calls this blk = snd (Init this blk)"

definition Init_object :: "NonlinearSolver \<Rightarrow> NonlinearSolverBlock \<Rightarrow> NonlinearSolver" where
  "Init_object this blk = fst (Init this blk)"

text \<open>
  Reading a sequence of calls. A setter overwrites what an earlier call of the same
  setter on the same object has set. The calls are replayed in order, starting from no
  strategy: the strategy a line-search object is left with is the argument of the last
  \<open>SNESLineSearchSetType\<close> applied to it, and \<open>None\<close> when there is no such call.
\<close>

fun set_type_arg :: "handle \<Rightarrow> petsc_call \<Rightarrow> linesearch_strategy option" where
  "set_type_arg h (SNESLineSearchSetType h' t) = (if h' = h then Some t else None)"
| "set_type_arg h c = None"

definition configured_linesearch :: "handle \<Rightarrow> petsc_call list \<Rightarrow> linesearch_strategy option" where
  "configured_linesearch h calls =
     fold (\<lambda>c cur. case set_type_arg h c of Some t \<Rightarrow> Some t | None \<Rightarrow> cur) calls None"

definition Init_linesearch ::
  "NonlinearSolver \<Rightarrow> NonlinearSolverBlock \<Rightarrow> linesearch_strategy option" where
  "Init_linesearch this blk =
     configured_linesearch (s_linesearch (Init_object this blk)) (Init_calls this blk)"

text \<open>
  The \<open>SNESLineSearchSetOrder\<close> calls of a sequence, in program order, each as the pair of
  the object it is applied to and the order it sets.
\<close>

fun set_order_arg :: "petsc_call \<Rightarrow> (handle \<times> int) option" where
  "set_order_arg (SNESLineSearchSetOrder h k) = Some (h, k)"
| "set_order_arg c = None"

definition order_calls :: "petsc_call list \<Rightarrow> (handle \<times> int) list" where
  "order_calls calls = List.map_filter set_order_arg calls"

text \<open>Classes of calls, used to project a sequence of calls.\<close>

fun is_linear_solve_call :: "petsc_call \<Rightarrow> bool" where
  "is_linear_solve_call (SNESGetKSP h) = True"
| "is_linear_solve_call (KSPSetTolerances h r a d n) = True"
| "is_linear_solve_call (KSPGMRESSetRestart h n) = True"
| "is_linear_solve_call (KSPGetPC h) = True"
| "is_linear_solve_call (PCSetType h t) = True"
| "is_linear_solve_call (KSPSetFromOptions h) = True"
| "is_linear_solve_call c = False"

fun is_outer_tolerance_call :: "petsc_call \<Rightarrow> bool" where
  "is_outer_tolerance_call (SNESSetTolerances h a r s n f) = True"
| "is_outer_tolerance_call c = False"

fun is_outer_type_call :: "petsc_call \<Rightarrow> bool" where
  "is_outer_type_call (SNESSetType h t) = True"
| "is_outer_type_call (SNESQNSetType h t) = True"
| "is_outer_type_call c = False"

fun is_get_linesearch_call :: "petsc_call \<Rightarrow> bool" where
  "is_get_linesearch_call (SNESGetLineSearch h) = True"
| "is_get_linesearch_call c = False"

text \<open>The eight tags that the dispatch of \<open>Init\<close> compares against.\<close>

fun recognized :: "NonlinearSolverType \<Rightarrow> bool" where
  "recognized (OtherSolverType k) = False"
| "recognized t = True"

text \<open>
  The table of section 4.2 of the specification, written from its rows: the default
  line-search strategy of each outer method. A tag that has no row has no entry.
\<close>

fun default_linesearch_table :: "NonlinearSolverType \<Rightarrow> linesearch_strategy option" where
  "default_linesearch_table NewtonRaphson = Some SNESLINESEARCHBASIC"
| "default_linesearch_table SNESNewtonLs = Some SNESLINESEARCHBT"
| "default_linesearch_table SNESNewtonTr = Some SNESLINESEARCHBASIC"
| "default_linesearch_table SNESLBfgs = Some SNESLINESEARCHCP"
| "default_linesearch_table SNESBroyden = Some SNESLINESEARCHBASIC"
| "default_linesearch_table SNESBadBroyden = Some SNESLINESEARCHL2"
| "default_linesearch_table SNESNewtonCG = Some SNESLINESEARCHCP"
| "default_linesearch_table SNESNewtonGMRES = Some SNESLINESEARCHL2"
| "default_linesearch_table (OtherSolverType k) = None"

text \<open>
  The one-to-one mapping of the specification for a requested type other than \<open>Default\<close>:
  BackTrace to BackTrace, CP to CriticalPoint, L2 to L2, Basic to Basic.
\<close>

fun explicit_linesearch_map :: "LineSearchType \<Rightarrow> linesearch_strategy option" where
  "explicit_linesearch_map LineSearchBackTrace = Some SNESLINESEARCHBT"
| "explicit_linesearch_map LineSearchCP = Some SNESLINESEARCHCP"
| "explicit_linesearch_map LineSearchL2 = Some SNESLINESEARCHL2"
| "explicit_linesearch_map LineSearchBasic = Some SNESLINESEARCHBASIC"
| "explicit_linesearch_map LineSearchDefault = None"
| "explicit_linesearch_map (OtherLineSearchType k) = None"

section \<open>MatrixXd\<close>

text \<open>
  The dense matrix class. Its members are the buffer \<open>_vals\<close>, the two dimensions \<open>_M\<close> and
  \<open>_N\<close> and the cached product \<open>_MN\<close>. The element type \<open>double\<close> is a type variable: the
  operations use its \<open>0\<close>, \<open>+\<close>, \<open>-\<close>, \<open>*\<close> and \<open>/\<close> and no law of arithmetic about them. A
  value of the C++ type \<open>int\<close> is an integer. The product \<open>m*n\<close> that \<open>Resize\<close> computes
  from its two arguments is the product of the machine, \<open>int_mul\<close> below, which differs
  from the product of the integers as soon as that leaves the range of \<open>int\<close>. The other
  products, the offsets and the loop counters are written with the arithmetic of the
  integers: the properties below take them at matrices that satisfy the invariant,
  where the product of the two dimensions is the number of elements of the buffer.

  An operation ends in one of four ways, and the last three are the errors of the
  model: it returns; it prints a diagnostic and ends the process; \<open>std::vector::resize\<close>
  throws because the requested count, a negative \<open>int\<close> converted to an unsigned size,
  exceeds the maximal size; or it reads or writes outside a buffer, which is undefined
  behaviour.

  A method that the source declares \<open>const\<close> is a function of the receiver; a method that
  writes the receiver returns the receiver after the call. An operand passed by
  reference is the value it has when the call starts. Not embedded are \<open>GetDataPtr\<close>,
  \<open>setZero\<close>, \<open>setRandom\<close> and the product with a \<open>VectorXd\<close>, a class that is not among
  the sources.
\<close>

datatype error =
    Fatal string
  | LengthError
  | UndefinedBehaviour

record 'a MatrixXd =
  m_vals :: "'a list"
  m_M :: int
  m_N :: int
  m_MN :: int

definition bindE :: "error + 'a \<Rightarrow> ('a \<Rightarrow> error + 'b) \<Rightarrow> error + 'b" where
  "bindE r f = (case r of Inl e \<Rightarrow> Inl e | Inr x \<Rightarrow> f x)"

text \<open>
  Modelled from the spec: \<open>MessagePrinter::PrintErrorTxt\<close> and \<open>MessagePrinter::AsFem_Exit\<close>
  are declared in \<open>Utils/MessagePrinter.h\<close>, which is not among the sources. By the
  specification a shape error is reported by a diagnostic print followed by immediate
  termination of the process, with no recovery. Every use in the source is the pair of
  calls, print then exit, which is one step here; the statements after the pair are
  never reached.
\<close>

definition fatal :: "string \<Rightarrow> error + 'a" where
  "fatal msg = Inl (Fatal msg)"

subsection \<open>The type int\<close>

text \<open>
  The range of a 32-bit \<open>int\<close>, and the product of two \<open>int\<close>s. A product outside the
  range is undefined in the language; the model gives it the value that a two's
  complement machine computes, which is the product of the integers reduced modulo
  \<open>2^32\<close> into the range. For \<open>65536 * 65536\<close> that value is \<open>0\<close>.
\<close>

definition int_range :: "int \<Rightarrow> bool" where
  "int_range k \<longleftrightarrow> - (2 ^ 31) \<le> k \<and> k < 2 ^ 31"

definition int_mul :: "int \<Rightarrow> int \<Rightarrow> int" where
  "int_mul a b = (a * b + 2 ^ 31) mod 2 ^ 32 - 2 ^ 31"

subsection \<open>The buffer\<close>

text \<open>
  \<open>std::vector::resize(count, value)\<close>: a buffer longer than \<open>count\<close> is cut to its first
  \<open>count\<close> elements, a shorter one is extended by copies of \<open>value\<close>; the elements that
  stay are not touched.
\<close>

definition vec_resize :: "'a list \<Rightarrow> int \<Rightarrow> 'a \<Rightarrow> error + 'a list" where
  "vec_resize xs count v =
     (if count < 0 then Inl LengthError
      else Inr (take (nat count) xs @ replicate (nat count - length xs) v))"

text \<open>\<open>_vals[k]\<close> as a value and as the target of an assignment.\<close>

definition load :: "'a MatrixXd \<Rightarrow> int \<Rightarrow> error + 'a" where
  "load a k =
     (if 0 \<le> k \<and> k < int (length (m_vals a)) then Inr (m_vals a ! nat k)
      else Inl UndefinedBehaviour)"

definition store :: "'a MatrixXd \<Rightarrow> int \<Rightarrow> 'a \<Rightarrow> error + 'a MatrixXd" where
  "store a k v =
     (if 0 \<le> k \<and> k < int (length (m_vals a)) then Inr (a\<lparr>m_vals := (m_vals a)[nat k := v]\<rparr>)
      else Inl UndefinedBehaviour)"

subsection \<open>Loops\<close>

text \<open>
  \<open>for (int i = lo; i < hi; ++i) body\<close> on a state; an error in the body ends the loop.
  \<open>for_le\<close> is the loop with the test \<open>i <= hi\<close>.
\<close>

function for_lt :: "int \<Rightarrow> int \<Rightarrow> (int \<Rightarrow> 's \<Rightarrow> error + 's) \<Rightarrow> 's \<Rightarrow> error + 's" where
  "for_lt i hi body s =
     (if i < hi
      then (case body i s of Inl e \<Rightarrow> Inl e | Inr s' \<Rightarrow> for_lt (i + 1) hi body s')
      else Inr s)"
  by pat_completeness auto
termination
  by (relation "measure (\<lambda>(i, hi, body, s). nat (hi - i))") auto

declare for_lt.simps [simp del]

definition for_le :: "int \<Rightarrow> int \<Rightarrow> (int \<Rightarrow> 's \<Rightarrow> error + 's) \<Rightarrow> 's \<Rightarrow> error + 's" where
  "for_le i hi body s = for_lt i (hi + 1) body s"

subsection \<open>Construction\<close>

text \<open>
  Modelled from the spec: the four constructors are declared in the class and defined in
  a file that is not among the sources. By the specification a matrix is created with
  explicit dimensions, zero-filled or value-filled, with \<open>GetM() = m\<close>, \<open>GetN() = n\<close> and
  a buffer of \<open>m*n\<close> elements; a freshly constructed matrix has \<open>M = 0\<close> and \<open>N = 0\<close>; the
  copy has the shape and the elements of its argument.
\<close>

definition MatrixXd_default :: "'a MatrixXd" where
  "MatrixXd_default = \<lparr>m_vals = [], m_M = 0, m_N = 0, m_MN = 0\<rparr>"

definition MatrixXd_mnv :: "int \<Rightarrow> int \<Rightarrow> 'a \<Rightarrow> error + 'a MatrixXd" where
  "MatrixXd_mnv m n val =
     bindE (vec_resize [] (m * n) val)
       (\<lambda>vs. Inr \<lparr>m_vals = vs, m_M = m, m_N = n, m_MN = m * n\<rparr>)"

definition MatrixXd_mn :: "int \<Rightarrow> int \<Rightarrow> error + ('a::zero) MatrixXd" where
  "MatrixXd_mn m n = MatrixXd_mnv m n 0"

definition MatrixXd_copy :: "'a MatrixXd \<Rightarrow> 'a MatrixXd" where
  "MatrixXd_copy a = a"

subsection \<open>Resize, Clean, element access\<close>

text \<open>
  \<open>Resize(m,n,val)\<close> and \<open>Resize(m,n)\<close>: \<open>_vals.resize(m*n,val);_M=m;_N=n;_MN=m*n;\<close> with
  the \<open>int\<close> product \<open>m*n\<close>, for the count of the buffer and for \<open>_MN\<close>.
\<close>

definition Resize_val :: "'a MatrixXd \<Rightarrow> int \<Rightarrow> int \<Rightarrow> 'a \<Rightarrow> error + 'a MatrixXd" where
  "Resize_val this m n val =
     bindE (vec_resize (m_vals this) (int_mul m n) val)
       (\<lambda>vs. Inr (this\<lparr>m_vals := vs, m_M := m, m_N := n, m_MN := int_mul m n\<rparr>))"

definition Resize :: "('a::zero) MatrixXd \<Rightarrow> int \<Rightarrow> int \<Rightarrow> error + 'a MatrixXd" where
  "Resize this m n =
     bindE (vec_resize (m_vals this) (int_mul m n) 0)
       (\<lambda>vs. Inr (this\<lparr>m_vals := vs, m_M := m, m_N := n, m_MN := int_mul m n\<rparr>))"

definition GetM :: "'a MatrixXd \<Rightarrow> int" where
  "GetM this = m_M this"

definition GetN :: "'a MatrixXd \<Rightarrow> int" where
  "GetN this = m_N this"


text \<open>\<open>operator()(i,j)\<close>: the element at \<open>_vals[(i-1)*_N+j-1]\<close>, read and written.\<close>

definition offset :: "'a MatrixXd \<Rightarrow> int \<Rightarrow> int \<Rightarrow> int" where
  "offset this i j = (i - 1) * m_N this + j - 1"

definition get_at :: "'a MatrixXd \<Rightarrow> int \<Rightarrow> int \<Rightarrow> error + 'a" where
  "get_at this i j = load this (offset this i j)"

definition set_at :: "'a MatrixXd \<Rightarrow> int \<Rightarrow> int \<Rightarrow> 'a \<Rightarrow> error + 'a MatrixXd" where
  "set_at this i j v = store this (offset this i j) v"

text \<open>\<open>operator[](i)\<close>: the element at \<open>_vals[i-1]\<close>.\<close>

definition get_flat :: "'a MatrixXd \<Rightarrow> int \<Rightarrow> error + 'a" where
  "get_flat this i = load this (i - 1)"

definition set_flat :: "'a MatrixXd \<Rightarrow> int \<Rightarrow> 'a \<Rightarrow> error + 'a MatrixXd" where
  "set_flat this i v = store this (i - 1) v"

subsection \<open>Assignment\<close>


text \<open>The loop \<open>for(int i=0;i<_MN;++i) _vals[i]=a._vals[i];\<close> of the matrix assignment.\<close>

definition copy_vals :: "'a MatrixXd \<Rightarrow> 'a MatrixXd \<Rightarrow> error + 'a MatrixXd" where
  "copy_vals this a =
     for_lt 0 (m_MN this) (\<lambda>i this. bindE (load a i) (\<lambda>x. store this i x)) this"

definition op_assign :: "('a::zero) MatrixXd \<Rightarrow> 'a MatrixXd \<Rightarrow> error + 'a MatrixXd" where
  "op_assign this a =
     (if m_M this = 0 \<and> m_N this = 0 then
        (let this1 = this\<lparr>m_M := GetM a, m_N := GetN a\<rparr>;
             this2 = this1\<lparr>m_MN := m_M this1 * m_N this1\<rparr>
         in bindE (vec_resize (m_vals this2) (m_MN this2) 0)
              (\<lambda>vs. copy_vals (this2\<lparr>m_vals := vs\<rparr>) a))
      else if m_M this = GetM a \<and> m_N this = GetN a then copy_vals this a
      else fatal ''a=b cant be applied for two matrix with different size'')"

subsection \<open>Arithmetic\<close>














subsection \<open>Transpose\<close>



subsection \<open>Determinant and inverse\<close>

text \<open>
  Both functions copy the elements into a matrix of the external dense library and call
  its decomposition. The library matrix is modelled by its two dimensions and the
  coefficients written so far; reading a coefficient that was never written, and any
  access outside the dimensions, is undefined behaviour. The two library functions
  \<open>determinant()\<close> and \<open>inverse()\<close> are parameters of the model: nothing is assumed about
  what they return, nor that they return.
\<close>

record 'a EigenMatrixXd =
  e_rows :: int
  e_cols :: int
  e_coeffs :: "int \<times> int \<rightharpoonup> 'a"

definition eigen_new :: "int \<Rightarrow> int \<Rightarrow> error + 'a EigenMatrixXd" where
  "eigen_new rows cols =
     (if rows < 0 \<or> cols < 0 then Inl UndefinedBehaviour
      else Inr \<lparr>e_rows = rows, e_cols = cols, e_coeffs = Map.empty\<rparr>)"

definition coeffRef_assign ::
  "'a EigenMatrixXd \<Rightarrow> int \<Rightarrow> int \<Rightarrow> 'a \<Rightarrow> error + 'a EigenMatrixXd" where
  "coeffRef_assign E r c v =
     (if 0 \<le> r \<and> r < e_rows E \<and> 0 \<le> c \<and> c < e_cols E
      then Inr (E\<lparr>e_coeffs := (e_coeffs E)((r, c) \<mapsto> v)\<rparr>)
      else Inl UndefinedBehaviour)"

definition coeff :: "'a EigenMatrixXd \<Rightarrow> int \<Rightarrow> int \<Rightarrow> error + 'a" where
  "coeff E r c =
     (if 0 \<le> r \<and> r < e_rows E \<and> 0 \<le> c \<and> c < e_cols E
      then (case e_coeffs E (r, c) of Some v \<Rightarrow> Inr v | None \<Rightarrow> Inl UndefinedBehaviour)
      else Inl UndefinedBehaviour)"

text \<open>The loop \<open>Mat.coeffRef(i-1,j-1)=(*this)(i,j)\<close> that both functions run.\<close>

definition eigen_fill :: "'a MatrixXd \<Rightarrow> 'a EigenMatrixXd \<Rightarrow> error + 'a EigenMatrixXd" where
  "eigen_fill this Mat =
     for_le 1 (m_M this) (\<lambda>i Mat.
       for_le 1 (m_N this) (\<lambda>j Mat.
         bindE (get_at this i j) (\<lambda>x. coeffRef_assign Mat (i - 1) (j - 1) x)) Mat) Mat"

definition Inverse ::
  "('a EigenMatrixXd \<Rightarrow> error + 'a EigenMatrixXd) \<Rightarrow> ('a::zero) MatrixXd \<Rightarrow> error + 'a MatrixXd" where
  "Inverse eigen_inverse this =
     (if m_M this \<noteq> m_N this then
        fatal ''the inverse operation only works for square matrix''
      else
        bindE (eigen_new (m_M this) (m_N this)) (\<lambda>Mat.
        bindE (eigen_new (m_M this) (m_N this)) (\<lambda>MatInv :: 'a EigenMatrixXd.
        bindE (MatrixXd_mn (m_M this) (m_N this)) (\<lambda>temp.
        bindE (eigen_fill this Mat) (\<lambda>Mat.
        bindE (eigen_inverse Mat) (\<lambda>MatInv.
          for_le 1 (m_M this) (\<lambda>i temp.
            for_le 1 (m_N this) (\<lambda>j temp.
              bindE (coeff MatInv (i - 1) (j - 1)) (\<lambda>x. set_at temp i j x)) temp) temp))))))"

definition Det :: "('a EigenMatrixXd \<Rightarrow> error + 'a) \<Rightarrow> 'a MatrixXd \<Rightarrow> error + 'a" where
  "Det eigen_determinant this =
     bindE (eigen_new (m_M this) (m_N this)) (\<lambda>Mat.
     bindE (eigen_fill this Mat) (\<lambda>Mat. eigen_determinant Mat))"

subsection \<open>The invariant\<close>

text \<open>
  The invariant of the specification: the buffer has \<open>GetM()*GetN()\<close> elements. The loops
  of the class run to the cached product \<open>_MN\<close>, so the operations need it to agree with
  the two dimensions as well.
\<close>

definition buffer_inv :: "'a MatrixXd \<Rightarrow> bool" where
  "buffer_inv a \<longleftrightarrow> int (length (m_vals a)) = GetM a * GetN a"

definition consistent :: "'a MatrixXd \<Rightarrow> bool" where
  "consistent a \<longleftrightarrow> buffer_inv a \<and> m_MN a = m_M a * m_N a"

section \<open>Properties of NonlinearSolver::Init\<close>

lemma init_setup_calls:
  "snd (init_setup this blk) =
     [SNESCreate,
      SNESGetKSP CreatedSNES,
      KSPSetTolerances (KSP_of CreatedSNES) (RealVal (1 / 10 ^ 10)) (RealVal (1 / 10 ^ 10))
        PETSC_DEFAULT 500000,
      KSPGMRESSetRestart (KSP_of CreatedSNES) 1200,
      KSPGetPC (KSP_of CreatedSNES),
      PCSetType (PC_of (KSP_of CreatedSNES)) PCLU,
      KSPSetFromOptions (KSP_of CreatedSNES),
      SNESSetTolerances CreatedSNES (b_RAbsTol blk) (b_RRelTol blk) (b_STol blk)
        (b_MaxIters blk) (- 1)]"
  by (simp add: init_setup_def Let_def)

lemma init_setup_object:
  "s_SolverType (fst (init_setup this blk)) = b_SolverType blk"
  "s_snes (fst (init_setup this blk)) = CreatedSNES"
  "s_ksp (fst (init_setup this blk)) = KSP_of CreatedSNES"
  "s_pc (fst (init_setup this blk)) = PC_of (KSP_of CreatedSNES)"
  "s_linesearch (fst (init_setup this blk)) = s_linesearch this"
  by (simp_all add: init_setup_def Let_def)

lemma Init_unfold:
  "Init this blk =
    (fst (init_dispatch (fst (init_setup this blk)) blk (b_SolverType blk)),
     snd (init_setup this blk)
       @ snd (init_dispatch (fst (init_setup this blk)) blk (b_SolverType blk))
       @ init_trailing (fst (init_dispatch (fst (init_setup this blk)) blk (b_SolverType blk))) blk)"
  by (simp add: Init_def Let_def split_beta init_setup_object)

lemma Init_calls_unfold:
  "Init_calls this blk =
     snd (init_setup this blk)
     @ snd (init_dispatch (fst (init_setup this blk)) blk (b_SolverType blk))
     @ [SNESLineSearchSetOrder (s_linesearch (Init_object this blk)) (b_LineSearchOrder blk)]"
  by (simp add: Init_calls_def Init_object_def Init_unfold init_trailing_def)

lemma Init_object_unfold:
  "Init_object this blk = fst (init_dispatch (fst (init_setup this blk)) blk (b_SolverType blk))"
  by (simp add: Init_object_def Init_unfold)

lemma init_dispatch_object:
  "s_snes (fst (init_dispatch s blk t)) = s_snes s"
  "s_ksp (fst (init_dispatch s blk t)) = s_ksp s"
  "s_pc (fst (init_dispatch s blk t)) = s_pc s"
  "s_linesearch (fst (init_dispatch s blk t)) =
     (if recognized t then LineSearch_of (s_snes s) else s_linesearch s)"
  by (cases t; simp add: Let_def)+

lemma linesearch_chain_filter:
  "filter is_linear_solve_call (linesearch_chain ls d lt) = []"
  "filter is_outer_tolerance_call (linesearch_chain ls d lt) = []"
  "filter is_outer_type_call (linesearch_chain ls d lt) = []"
  "filter is_get_linesearch_call (linesearch_chain ls d lt) = []"
  "order_calls (linesearch_chain ls d lt) = []"
  by (cases lt; simp add: order_calls_def List.map_filter_def)+

lemma order_calls_append: "order_calls (xs @ ys) = order_calls xs @ order_calls ys"
  by (simp add: order_calls_def List.map_filter_def)

lemma order_calls_simps:
  "order_calls [] = []"
  "order_calls (SNESLineSearchSetOrder h k # cs) = (h, k) # order_calls cs"
  "set_order_arg c = None \<Longrightarrow> order_calls (c # cs) = order_calls cs"
  by (simp_all add: order_calls_def List.map_filter_def)

lemma init_dispatch_filter:
  "filter is_linear_solve_call (snd (init_dispatch s blk t)) = []"
  "filter is_outer_tolerance_call (snd (init_dispatch s blk t)) = []"
  "filter is_get_linesearch_call (snd (init_dispatch s blk t)) =
     (if recognized t then [SNESGetLineSearch (s_snes s)] else [])"
  by (cases t; simp add: Let_def linesearch_chain_filter)+

declare init_dispatch.simps [simp del]

lemma init_dispatch_order_calls:
  "order_calls (snd (init_dispatch s blk t)) =
     (if t = NewtonRaphson \<or> t = SNESNewtonLs
      then [(LineSearch_of (s_snes s), b_LineSearchOrder blk)] else [])"
  by (cases t)
    (simp_all add: init_dispatch.simps Let_def linesearch_chain_filter order_calls_append
      order_calls_simps)

text \<open>The last setter wins: what a sequence of calls leaves on a line-search object.\<close>

lemma configured_linesearch_snoc:
  "configured_linesearch h (cs @ [c]) =
     (case set_type_arg h c of Some t \<Rightarrow> Some t | None \<Rightarrow> configured_linesearch h cs)"
  by (cases "set_type_arg h c") (simp_all add: configured_linesearch_def)

lemma configured_linesearch_append:
  "configured_linesearch h (cs @ ds) =
     (case configured_linesearch h ds of
        Some t \<Rightarrow> Some t
      | None \<Rightarrow> configured_linesearch h cs)"
proof (induction ds rule: rev_induct)
  case Nil
  show ?case by (simp add: configured_linesearch_def)
next
  case (snoc d ds)
  have "configured_linesearch h (cs @ ds @ [d]) =
      (case set_type_arg h d of
         Some t \<Rightarrow> Some t
       | None \<Rightarrow> configured_linesearch h (cs @ ds))"
    using configured_linesearch_snoc [of h "cs @ ds" d] by simp
  then show ?case
    by (simp add: configured_linesearch_snoc snoc.IH split: option.splits)
qed

lemma configured_linesearch_chain:
  "configured_linesearch h (linesearch_chain h d lt) =
     (case lt of
        LineSearchDefault \<Rightarrow> Some d
      | LineSearchBackTrace \<Rightarrow> Some SNESLINESEARCHBT
      | LineSearchCP \<Rightarrow> Some SNESLINESEARCHCP
      | LineSearchL2 \<Rightarrow> Some SNESLINESEARCHL2
      | LineSearchBasic \<Rightarrow> Some SNESLINESEARCHBASIC
      | OtherLineSearchType k \<Rightarrow> None)"
  by (cases lt) (simp_all add: configured_linesearch_def)

lemma configured_linesearch_no_setter:
  "configured_linesearch h [] = None"
  "configured_linesearch h [SNESLineSearchSetOrder h' k] = None"
  "configured_linesearch h [SNESSetType h' x, SNESGetLineSearch h''] = None"
  "configured_linesearch h [SNESSetType h' x, SNESQNSetType h' y, SNESGetLineSearch h''] = None"
  "configured_linesearch h (snd (init_setup this blk)) = None"
  by (simp_all add: configured_linesearch_def init_setup_calls)

lemma configured_linesearch_NewtonLs:
  "configured_linesearch h
     [SNESSetType h' x, SNESGetLineSearch h'', SNESLineSearchSetType h SNESLINESEARCHL2]
   = Some SNESLINESEARCHL2"
  by (simp add: configured_linesearch_def)

lemma Init_linesearch_unfold:
  "Init_linesearch this blk =
     configured_linesearch (s_linesearch (Init_object this blk))
       (snd (init_dispatch (fst (init_setup this blk)) blk (b_SolverType blk)))"
  by (simp add: Init_linesearch_def Init_calls_unfold configured_linesearch_append
      configured_linesearch_no_setter split: option.splits)

lemma init_dispatch_linesearch:
  assumes "recognized t"
  shows "configured_linesearch (LineSearch_of (s_snes s)) (snd (init_dispatch s blk t)) =
     (case b_LineSearchType blk of
        LineSearchDefault \<Rightarrow> default_linesearch_table t
      | LineSearchBackTrace \<Rightarrow> Some SNESLINESEARCHBT
      | LineSearchCP \<Rightarrow> Some SNESLINESEARCHCP
      | LineSearchL2 \<Rightarrow> Some SNESLINESEARCHL2
      | LineSearchBasic \<Rightarrow> Some SNESLINESEARCHBASIC
      | OtherLineSearchType k \<Rightarrow>
          (if t = SNESNewtonLs then Some SNESLINESEARCHL2 else None))"
  using assms
  by (cases t)
    (simp_all add: init_dispatch.simps Let_def configured_linesearch_append
      configured_linesearch_chain configured_linesearch_no_setter
      configured_linesearch_NewtonLs
      del: append.simps split: LineSearchType.splits)

text \<open>
  C1. When the requested line-search type is \<open>Default\<close>, the strategy that the line-search
  object of the solver is left with after \<open>Init\<close> is the entry of the per-method default
  table for the outer solver type of the block: Basic for NewtonRaphson, BackTrace for
  SNESNewtonLs, Basic for SNESNewtonTr, CriticalPoint for SNESLBfgs, Basic for
  SNESBroyden, L2 for SNESBadBroyden, CriticalPoint for SNESNewtonCG and L2 for
  SNESNewtonGMRES. In the SNESNewtonLs branch the L2 strategy is set first and then
  replaced by BackTrace.
\<close>

theorem Init_default_linesearch:
  "Init_linesearch this (blk\<lparr>b_LineSearchType := LineSearchDefault\<rparr>)
     = default_linesearch_table (b_SolverType blk)"
proof (cases "recognized (b_SolverType blk)")
  case True
  then show ?thesis
    using init_dispatch_linesearch [of "b_SolverType blk"
        "fst (init_setup this (blk\<lparr>b_LineSearchType := LineSearchDefault\<rparr>))"
        "blk\<lparr>b_LineSearchType := LineSearchDefault\<rparr>"]
    by (simp add: Init_linesearch_unfold Init_object_unfold init_dispatch_object
        init_setup_object)
next
  case False
  then obtain k where "b_SolverType blk = OtherSolverType k"
    by (cases "b_SolverType blk") simp_all
  then show ?thesis
    by (simp add: Init_linesearch_unfold configured_linesearch_no_setter init_dispatch.simps)
qed

text \<open>
  C7. For each of the eight recognized outer solver types and each requested line-search
  type other than \<open>Default\<close>, that is BackTrace, CP, L2 or Basic, the strategy that the
  line-search object is left with after \<open>Init\<close> is the one-to-one image of the requested
  type, whichever outer method was selected.
\<close>

theorem Init_explicit_linesearch:
  assumes "recognized (b_SolverType blk)"
    and "explicit_linesearch_map (b_LineSearchType blk) = Some st"
  shows "Init_linesearch this blk = Some st"
proof -
  have "Init_linesearch this blk =
      configured_linesearch (LineSearch_of CreatedSNES)
        (snd (init_dispatch (fst (init_setup this blk)) blk (b_SolverType blk)))"
    using assms(1)
    by (simp add: Init_linesearch_unfold Init_object_unfold init_dispatch_object
        init_setup_object)
  also have "\<dots> = Some st"
    using assms init_dispatch_linesearch [of "b_SolverType blk" "fst (init_setup this blk)" blk]
    by (cases "b_LineSearchType blk") (simp_all add: init_setup_object)
  finally show ?thesis .
qed

theorem Init_explicit_linesearch_witness:
  "recognized SNESNewtonTr
   \<and> explicit_linesearch_map LineSearchL2 = Some SNESLINESEARCHL2
   \<and> Init_linesearch
        \<lparr>s_SolverType = NewtonRaphson, s_MaxIters = 0, s_RAbsTol = 0, s_RRelTol = 0,
         s_STol = 0, s_snes = Prior 0, s_ksp = Prior 1, s_pc = Prior 2,
         s_linesearch = Prior 3\<rparr>
        \<lparr>b_SolverType = SNESNewtonTr, b_MaxIters = 50, b_RAbsTol = 1 / 10 ^ 7,
         b_RRelTol = 1 / 10 ^ 8, b_STol = 0, b_LineSearchType = LineSearchL2,
         b_LineSearchOrder = 2\<rparr>
      = Some SNESLINESEARCHL2"
  using Init_explicit_linesearch
    [of "\<lparr>b_SolverType = SNESNewtonTr, b_MaxIters = 50, b_RAbsTol = 1 / 10 ^ 7,
          b_RRelTol = 1 / 10 ^ 8, b_STol = 0, b_LineSearchType = LineSearchL2,
          b_LineSearchOrder = 2\<rparr>" SNESLINESEARCHL2]
  by simp

text \<open>
  C8. For every block, the calls of \<open>Init\<close> that concern the inner linear solve are, in
  order: fetching the linear solver of the created outer solver, setting its two
  tolerances to \<open>1e-10\<close> with the divergence tolerance left at the library default and
  the iteration cap 500000, setting the restart length 1200, fetching its
  preconditioner, setting the preconditioner type to LU, and reading the run-time
  options. The one call that sets the outer tolerances passes the absolute and relative
  residual tolerances, the step tolerance and the maximum iteration count of the block,
  and \<open>-1\<close> for the cap on function evaluations, which the library reads as no limit.
\<close>

theorem Init_linear_solve_and_tolerances:
  "filter is_linear_solve_call (Init_calls this blk) =
     [SNESGetKSP CreatedSNES,
      KSPSetTolerances (KSP_of CreatedSNES) (RealVal (1 / 10 ^ 10)) (RealVal (1 / 10 ^ 10))
        PETSC_DEFAULT 500000,
      KSPGMRESSetRestart (KSP_of CreatedSNES) 1200,
      KSPGetPC (KSP_of CreatedSNES),
      PCSetType (PC_of (KSP_of CreatedSNES)) PCLU,
      KSPSetFromOptions (KSP_of CreatedSNES)]
   \<and> filter is_outer_tolerance_call (Init_calls this blk) =
     [SNESSetTolerances CreatedSNES (b_RAbsTol blk) (b_RRelTol blk) (b_STol blk)
        (b_MaxIters blk) (- 1)]
   \<and> s_snes (Init_object this blk) = CreatedSNES
   \<and> s_ksp (Init_object this blk) = KSP_of CreatedSNES
   \<and> s_pc (Init_object this blk) = PC_of (KSP_of CreatedSNES)"
  by (simp add: Init_calls_unfold Init_object_unfold init_dispatch_filter init_dispatch_object
      init_setup_object init_setup_calls)

text \<open>
  C6. The calls of \<open>Init\<close> are those of the setup, then those of the dispatch branch, then
  one \<open>SNESLineSearchSetOrder\<close> with the order of the block, which is made for every block.
  The setup sets no order. The dispatch branch sets the order once, on the line-search
  object of the created solver, when the outer type is NewtonRaphson or SNESNewtonLs,
  and not at all otherwise. For the trust-region type SNESNewtonTr the line-search object
  is fetched once and the trailing call is made on it.
\<close>

theorem Init_order_calls:
  "Init_calls this blk =
     snd (init_setup this blk)
     @ snd (init_dispatch (fst (init_setup this blk)) blk (b_SolverType blk))
     @ [SNESLineSearchSetOrder (s_linesearch (Init_object this blk)) (b_LineSearchOrder blk)]
   \<and> order_calls (snd (init_setup this blk)) = []
   \<and> order_calls (snd (init_dispatch (fst (init_setup this blk)) blk (b_SolverType blk))) =
       (if b_SolverType blk = NewtonRaphson \<or> b_SolverType blk = SNESNewtonLs
        then [(LineSearch_of CreatedSNES, b_LineSearchOrder blk)] else [])
   \<and> order_calls (Init_calls this blk) =
       (if b_SolverType blk = NewtonRaphson \<or> b_SolverType blk = SNESNewtonLs
        then [(LineSearch_of CreatedSNES, b_LineSearchOrder blk),
              (LineSearch_of CreatedSNES, b_LineSearchOrder blk)]
        else [(s_linesearch (Init_object this blk), b_LineSearchOrder blk)])
   \<and> filter is_get_linesearch_call (Init_calls this (blk\<lparr>b_SolverType := SNESNewtonTr\<rparr>)) =
       [SNESGetLineSearch CreatedSNES]
   \<and> s_linesearch (Init_object this (blk\<lparr>b_SolverType := SNESNewtonTr\<rparr>)) =
       LineSearch_of CreatedSNES
   \<and> order_calls (Init_calls this (blk\<lparr>b_SolverType := SNESNewtonTr\<rparr>)) =
       [(LineSearch_of CreatedSNES, b_LineSearchOrder blk)]"
proof -
  have nil: "order_calls (snd (init_setup this b)) = []" for b
    by (simp add: init_setup_calls order_calls_simps)
  have all: "order_calls (Init_calls this b) =
      order_calls (snd (init_dispatch (fst (init_setup this b)) b (b_SolverType b)))
      @ [(s_linesearch (Init_object this b), b_LineSearchOrder b)]" for b
    by (simp add: Init_calls_unfold [of this b] order_calls_append nil order_calls_simps)
  have get: "filter is_get_linesearch_call (Init_calls this b) =
      filter is_get_linesearch_call
        (snd (init_dispatch (fst (init_setup this b)) b (b_SolverType b)))" for b
    by (simp add: Init_calls_unfold [of this b] init_setup_calls)
  have c1: "Init_calls this blk =
     snd (init_setup this blk)
     @ snd (init_dispatch (fst (init_setup this blk)) blk (b_SolverType blk))
     @ [SNESLineSearchSetOrder (s_linesearch (Init_object this blk)) (b_LineSearchOrder blk)]"
    by (rule Init_calls_unfold)
  have c3: "order_calls (snd (init_dispatch (fst (init_setup this blk)) blk (b_SolverType blk))) =
       (if b_SolverType blk = NewtonRaphson \<or> b_SolverType blk = SNESNewtonLs
        then [(LineSearch_of CreatedSNES, b_LineSearchOrder blk)] else [])"
    by (simp add: init_dispatch_order_calls init_setup_object)
  have c4: "order_calls (Init_calls this blk) =
       (if b_SolverType blk = NewtonRaphson \<or> b_SolverType blk = SNESNewtonLs
        then [(LineSearch_of CreatedSNES, b_LineSearchOrder blk),
              (LineSearch_of CreatedSNES, b_LineSearchOrder blk)]
        else [(s_linesearch (Init_object this blk), b_LineSearchOrder blk)])"
    by (auto simp add: all c3 Init_object_unfold init_dispatch_object init_setup_object)
  have c5: "filter is_get_linesearch_call (Init_calls this (blk\<lparr>b_SolverType := SNESNewtonTr\<rparr>)) =
       [SNESGetLineSearch CreatedSNES]"
    by (simp add: get init_dispatch_filter init_setup_object)
  have c6: "s_linesearch (Init_object this (blk\<lparr>b_SolverType := SNESNewtonTr\<rparr>)) =
       LineSearch_of CreatedSNES"
    by (simp add: Init_object_unfold init_dispatch_object init_setup_object)
  have c7: "order_calls (Init_calls this (blk\<lparr>b_SolverType := SNESNewtonTr\<rparr>)) =
       [(LineSearch_of CreatedSNES, b_LineSearchOrder blk)]"
    by (simp add: all init_dispatch_order_calls c6)
  from c1 nil c3 c4 c5 c6 c7 show ?thesis by blast
qed

text \<open>
  C10. For a block whose solver type is none of the eight tags, \<open>Init\<close> makes the calls of
  the setup and then the trailing \<open>SNESLineSearchSetOrder\<close>, and nothing else: no call sets
  the type of the outer solver, no call fetches the line-search object, the member
  \<open>_linesearch\<close> keeps the value it had before \<open>Init\<close>, and the trailing call is applied to
  that value. The function has no branch that reports an error or ends the process, and
  it returns after the trailing call.
\<close>

theorem Init_unrecognized:
  "Init_calls this (blk\<lparr>b_SolverType := OtherSolverType k\<rparr>) =
     [SNESCreate,
      SNESGetKSP CreatedSNES,
      KSPSetTolerances (KSP_of CreatedSNES) (RealVal (1 / 10 ^ 10)) (RealVal (1 / 10 ^ 10))
        PETSC_DEFAULT 500000,
      KSPGMRESSetRestart (KSP_of CreatedSNES) 1200,
      KSPGetPC (KSP_of CreatedSNES),
      PCSetType (PC_of (KSP_of CreatedSNES)) PCLU,
      KSPSetFromOptions (KSP_of CreatedSNES),
      SNESSetTolerances CreatedSNES (b_RAbsTol blk) (b_RRelTol blk) (b_STol blk)
        (b_MaxIters blk) (- 1),
      SNESLineSearchSetOrder (s_linesearch this) (b_LineSearchOrder blk)]
   \<and> filter is_outer_type_call (Init_calls this (blk\<lparr>b_SolverType := OtherSolverType k\<rparr>)) = []
   \<and> filter is_get_linesearch_call
         (Init_calls this (blk\<lparr>b_SolverType := OtherSolverType k\<rparr>)) = []
   \<and> s_linesearch (Init_object this (blk\<lparr>b_SolverType := OtherSolverType k\<rparr>)) =
       s_linesearch this"
  by (simp add: Init_calls_unfold Init_object_unfold init_setup_calls init_setup_object
      init_dispatch.simps)

section \<open>Properties of MatrixXd\<close>

lemma bindE_simps [simp]:
  "bindE (Inl e) f = Inl e"
  "bindE (Inr x) f = f x"
  by (simp_all add: bindE_def)

lemma bindE_eq_Inr: "bindE r f = Inr y \<longleftrightarrow> (\<exists>x. r = Inr x \<and> f x = Inr y)"
  by (cases r) simp_all

lemma fatal_neq_Inr [simp]: "fatal msg \<noteq> Inr y"
  by (simp add: fatal_def)

lemma for_lt_done: "\<not> i < hi \<Longrightarrow> for_lt i hi body s = Inr s"
  by (simp add: for_lt.simps)

lemma for_lt_step: "i < hi \<Longrightarrow> for_lt i hi body s = bindE (body i s) (for_lt (i + 1) hi body)"
  by (subst for_lt.simps) (simp add: bindE_def)

lemma for_lt_preserves:
  assumes "for_lt i hi body s = Inr s'" and "P s"
    and "\<And>k t t'. body k t = Inr t' \<Longrightarrow> P t \<Longrightarrow> P t'"
  shows "P s'"
  using assms
proof (induction i hi body s rule: for_lt.induct)
  case (1 i hi body s)
  show ?case
  proof (cases "i < hi")
    case True
    with "1.prems"(1) obtain t where t: "body i s = Inr t" and rest: "for_lt (i + 1) hi body t = Inr s'"
      by (auto simp: for_lt_step bindE_eq_Inr)
    from t "1.prems"(2) have "P t" by (rule "1.prems"(3))
    with "1.IH" [OF True t rest] "1.prems"(3) show ?thesis by blast
  next
    case False
    with "1.prems" show ?thesis by (simp add: for_lt_done)
  qed
qed


lemma store_consistent: "store a k v = Inr a' \<Longrightarrow> consistent a \<Longrightarrow> consistent a'"
  by (auto simp: store_def consistent_def buffer_inv_def GetM_def GetN_def split: if_splits)














text \<open>The loops over the buffer that write one element of the state in every round.\<close>

lemma elementwise_consistent:
  assumes "for_lt i hi (\<lambda>k t. bindE (g k t) (\<lambda>x. store t k (f k x))) s = Inr s'"
    and "consistent s"
  shows "consistent s'"
  using assms by (rule for_lt_preserves) (auto simp: bindE_eq_Inr dest: store_consistent)

















lemma for_lt_rule:
  assumes "I i s" and "i \<le> hi"
    and "\<And>k t. i \<le> k \<Longrightarrow> k < hi \<Longrightarrow> I k t \<Longrightarrow> \<exists>t'. body k t = Inr t' \<and> I (k + 1) t'"
  shows "\<exists>s'. for_lt i hi body s = Inr s' \<and> I hi s'"
  using assms
proof (induction i hi body s rule: for_lt.induct)
  case (1 i hi body s)
  show ?case
  proof (cases "i < hi")
    case True
    from "1.prems"(3) [of i s] True "1.prems"(1)
    obtain t where t: "body i s = Inr t" "I (i + 1) t" by auto
    have "\<exists>s'. for_lt (i + 1) hi body t = Inr s' \<and> I hi s'"
    proof (rule "1.IH" [OF True t(1) t(2)])
      show "i + 1 \<le> hi" using True by simp
    next
      fix k u
      assume "i + 1 \<le> k" "k < hi" "I k u"
      then show "\<exists>t'. body k u = Inr t' \<and> I (k + 1) t'"
        using "1.prems"(3) [of k u] by simp
    qed
    then show ?thesis by (simp add: for_lt_step True t(1))
  next
    case False
    with "1.prems"(2) have "i = hi" by simp
    with "1.prems"(1) show ?thesis by (simp add: for_lt_done)
  qed
qed


lemma copy_step:
  assumes "k < length xs" and "length ys = length xs"
  shows "(take k ys @ drop k xs)[k := ys ! k] = take (Suc k) ys @ drop (Suc k) xs"
  using assms
  by (simp add: list_update_append take_Suc_conv_app_nth min_def flip: Cons_nth_drop_Suc)

lemma copy_vals_total:
  assumes len: "int (length (m_vals this)) = m_MN this"
    and same: "length (m_vals a) = length (m_vals this)"
  shows "copy_vals this a = Inr (this\<lparr>m_vals := m_vals a\<rparr>)"
proof -
  define I where "I = (\<lambda>k t. t = this\<lparr>m_vals := take (nat k) (m_vals a) @ drop (nat k) (m_vals this)\<rparr>)"
  have "\<exists>s'. for_lt 0 (m_MN this) (\<lambda>i this. bindE (load a i) (\<lambda>x. store this i x)) this = Inr s'
          \<and> I (m_MN this) s'"
  proof (rule for_lt_rule [where I = I])
    show "I 0 this" by (simp add: I_def)
    show "0 \<le> m_MN this" using len by simp
  next
    fix k t
    assume k: "0 \<le> k" "k < m_MN this" and "I k t"
    then have t: "t = this\<lparr>m_vals := take (nat k) (m_vals a) @ drop (nat k) (m_vals this)\<rparr>"
      by (simp add: I_def)
    from k len have kn: "nat k < length (m_vals this)" by linarith
    have ld: "load a k = Inr (m_vals a ! nat k)"
      using k kn same by (simp add: load_def)
    have lt: "length (m_vals t) = length (m_vals this)"
      using kn same by (simp add: t)
    have st: "store t k (m_vals a ! nat k) =
        Inr (this\<lparr>m_vals := take (Suc (nat k)) (m_vals a) @ drop (Suc (nat k)) (m_vals this)\<rparr>)"
      using k kn lt copy_step [OF kn same] by (simp add: store_def) (simp add: t)
    have "nat (k + 1) = Suc (nat k)" using k by simp
    then show "\<exists>t'. bindE (load a k) (\<lambda>x. store t k x) = Inr t' \<and> I (k + 1) t'"
      by (simp add: ld st I_def)
  qed
  then show ?thesis
    using len same by (auto simp: copy_vals_def I_def)
qed





lemma consistent_length: "consistent a \<Longrightarrow> int (length (m_vals a)) = m_M a * m_N a"
  by (simp add: consistent_def buffer_inv_def GetM_def GetN_def)

lemma op_assign_fresh:
  fixes A B :: "('a::zero) MatrixXd"
  assumes A: "consistent A" and B: "m_M B = 0" "m_N B = 0"
  shows "op_assign B A = Inr A"
proof -
  let ?vs = "take (nat (m_M A * m_N A)) (m_vals B)
      @ replicate (nat (m_M A * m_N A) - length (m_vals B)) 0"
  let ?B2 = "B\<lparr>m_M := m_M A, m_N := m_N A, m_MN := m_M A * m_N A, m_vals := ?vs\<rparr>"
  have len: "int (length (m_vals A)) = m_M A * m_N A" using A by (rule consistent_length)
  then have nn: "0 \<le> m_M A * m_N A" by linarith
  have rs: "vec_resize (m_vals B) (m_M A * m_N A) 0 = Inr ?vs"
    using nn by (simp add: vec_resize_def)
  have l2: "length ?vs = length (m_vals A)"
    using len by (simp add: min_def)
  have "copy_vals ?B2 A = Inr (?B2\<lparr>m_vals := m_vals A\<rparr>)"
    using len l2 by (intro copy_vals_total) simp_all
  moreover have "?B2\<lparr>m_vals := m_vals A\<rparr> = A"
    using A by (simp add: consistent_def)
  ultimately show ?thesis
    using B rs by (simp add: op_assign_def Let_def GetM_def GetN_def)
qed

lemma op_assign_same_shape:
  fixes A B :: "('a::zero) MatrixXd"
  assumes A: "consistent A" and B: "consistent B"
    and nf: "\<not> (m_M B = 0 \<and> m_N B = 0)" and same: "m_M B = m_M A" "m_N B = m_N A"
  shows "op_assign B A = Inr (B\<lparr>m_vals := m_vals A\<rparr>)"
proof -
  have "int (length (m_vals B)) = m_MN B"
    using B by (simp add: consistent_def buffer_inv_def GetM_def GetN_def)
  moreover have "length (m_vals A) = length (m_vals B)"
    using consistent_length [OF A] consistent_length [OF B] same by simp
  ultimately have "copy_vals B A = Inr (B\<lparr>m_vals := m_vals A\<rparr>)"
    by (rule copy_vals_total)
  then show ?thesis
    using nf same by (auto simp: op_assign_def GetM_def GetN_def)
qed

lemma op_assign_mismatch:
  assumes "\<not> (m_M B = 0 \<and> m_N B = 0)" and "\<not> (m_M B = m_M A \<and> m_N B = m_N A)"
  shows "op_assign B A = Inl (Fatal ''a=b cant be applied for two matrix with different size'')"
  using assms by (auto simp: op_assign_def GetM_def GetN_def fatal_def)

text \<open>
  C5. Matrix-to-matrix assignment \<open>B = A\<close>, for a source \<open>A\<close> that satisfies the invariant.
  If \<open>B\<close> has \<open>M = 0\<close> and \<open>N = 0\<close>, as a freshly constructed matrix has, the call returns
  and \<open>B\<close> has become \<open>A\<close>: it has the shape of \<open>A\<close> and the elements of \<open>A\<close>. If \<open>B\<close> has
  a shape other than \<open>(0,0)\<close> that equals the shape of \<open>A\<close>, and satisfies the invariant,
  the call returns and the buffer of \<open>B\<close> holds the elements of \<open>A\<close>. If \<open>B\<close> has a shape
  other than \<open>(0,0)\<close> that differs from the shape of \<open>A\<close>, the call prints the diagnostic
  and ends the process.
\<close>

theorem op_assign_matrix:
  fixes A B :: "('a::zero) MatrixXd"
  assumes "consistent A"
  shows "(GetM B = 0 \<and> GetN B = 0 \<longrightarrow> op_assign B A = Inr A)
    \<and> (\<not> (GetM B = 0 \<and> GetN B = 0) \<and> GetM B = GetM A \<and> GetN B = GetN A \<and> consistent B \<longrightarrow>
         op_assign B A = Inr (B\<lparr>m_vals := m_vals A\<rparr>))
    \<and> (\<not> (GetM B = 0 \<and> GetN B = 0) \<and> \<not> (GetM B = GetM A \<and> GetN B = GetN A) \<longrightarrow>
         op_assign B A =
           Inl (Fatal ''a=b cant be applied for two matrix with different size''))"
  using assms op_assign_fresh [of A B] op_assign_same_shape [of A B] op_assign_mismatch [of B A]
  unfolding GetM_def GetN_def by blast

text \<open>
  The three cases at the 2-by-2 source \<open>[1,2,3,4]\<close>: a default-constructed target, a
  2-by-2 target and a 1-by-2 target.
\<close>

theorem op_assign_matrix_witness:
  "consistent \<lparr>m_vals = [1, 2, 3, 4 :: real], m_M = 2, m_N = 2, m_MN = 4\<rparr>
   \<and> op_assign MatrixXd_default \<lparr>m_vals = [1, 2, 3, 4 :: real], m_M = 2, m_N = 2, m_MN = 4\<rparr>
       = Inr \<lparr>m_vals = [1, 2, 3, 4], m_M = 2, m_N = 2, m_MN = 4\<rparr>
   \<and> op_assign \<lparr>m_vals = [5, 6, 7, 8], m_M = 2, m_N = 2, m_MN = 4\<rparr>
        \<lparr>m_vals = [1, 2, 3, 4 :: real], m_M = 2, m_N = 2, m_MN = 4\<rparr>
       = Inr \<lparr>m_vals = [1, 2, 3, 4], m_M = 2, m_N = 2, m_MN = 4\<rparr>
   \<and> op_assign \<lparr>m_vals = [5, 6], m_M = 1, m_N = 2, m_MN = 2\<rparr>
        \<lparr>m_vals = [1, 2, 3, 4 :: real], m_M = 2, m_N = 2, m_MN = 4\<rparr>
       = Inl (Fatal ''a=b cant be applied for two matrix with different size'')"
proof -
  let ?A = "\<lparr>m_vals = [1, 2, 3, 4 :: real], m_M = 2, m_N = 2, m_MN = 4\<rparr>"
  have A: "consistent ?A"
    by (simp add: consistent_def buffer_inv_def GetM_def GetN_def)
  have B: "consistent \<lparr>m_vals = [5, 6, 7, 8 :: real], m_M = 2, m_N = 2, m_MN = 4\<rparr>"
    by (simp add: consistent_def buffer_inv_def GetM_def GetN_def)
  show ?thesis
    using A B op_assign_matrix [OF A, of MatrixXd_default]
      op_assign_matrix [OF A, of "\<lparr>m_vals = [5, 6, 7, 8], m_M = 2, m_N = 2, m_MN = 4\<rparr>"]
      op_assign_matrix [OF A, of "\<lparr>m_vals = [5, 6], m_M = 1, m_N = 2, m_MN = 2\<rparr>"]
    by (simp add: GetM_def GetN_def MatrixXd_default_def)
qed



lemmas run_simps =
  MatrixXd_mn_def MatrixXd_mnv_def MatrixXd_default_def MatrixXd_copy_def vec_resize_def
  for_le_def for_lt_step for_lt_done load_def store_def get_at_def set_at_def offset_def
  GetM_def GetN_def Let_def copy_vals_def int_mul_def

text \<open>
  C2. The claim is that after \<open>A.Resize(m,n,val)\<close> every element of \<open>A\<close> equals \<open>val\<close>, and
  equals \<open>0.0\<close> after \<open>A.Resize(m,n)\<close>, whatever \<open>A\<close> held before; the comment of \<open>Resize\<close>
  in the source says the same, "the matrix is set to zero by default". The code calls
  \<open>std::vector::resize\<close>, which keeps the elements that are already there. On the 1-by-1
  matrix that holds \<open>5\<close>, as \<open>MatrixXd(1,1,5.0)\<close> makes it, \<open>Resize(1,2)\<close> leaves the buffer
  \<open>[5, 0]\<close> and \<open>Resize(1,2,7.0)\<close> leaves \<open>[5, 7]\<close>: the buffer has \<open>m*n\<close> elements, and
  the first of them is neither \<open>0\<close> nor \<open>7\<close>.
\<close>

theorem Resize_keeps_old_elements:
  "MatrixXd_mnv 1 1 (5 :: real) = Inr \<lparr>m_vals = [5], m_M = 1, m_N = 1, m_MN = 1\<rparr>
   \<and> Resize \<lparr>m_vals = [5 :: real], m_M = 1, m_N = 1, m_MN = 1\<rparr> 1 2
       = Inr \<lparr>m_vals = [5, 0], m_M = 1, m_N = 2, m_MN = 2\<rparr>
   \<and> Resize_val \<lparr>m_vals = [5 :: real], m_M = 1, m_N = 1, m_MN = 1\<rparr> 1 2 7
       = Inr \<lparr>m_vals = [5, 7], m_M = 1, m_N = 2, m_MN = 2\<rparr>"
  by (simp add: Resize_def Resize_val_def run_simps)

text \<open>
  C3. The claim is that \<open>Inverse()\<close> and \<open>Det()\<close> on a matrix that is not square print a
  diagnostic and end the process. \<open>Inverse()\<close> tests \<open>_M != _N\<close> and does so. \<open>Det()\<close> has no
  such test: on the 1-by-2 matrix \<open>[1, 2]\<close> it copies the two elements into a 1-by-2
  matrix of the library and its result is whatever the library's \<open>determinant()\<close> gives
  on that matrix; with a \<open>determinant()\<close> that returns a number, \<open>Det()\<close> returns that
  number.
\<close>

theorem Det_has_no_square_check:
  "GetM \<lparr>m_vals = [1, 2 :: real], m_M = 1, m_N = 2, m_MN = 2\<rparr>
     \<noteq> GetN \<lparr>m_vals = [1, 2 :: real], m_M = 1, m_N = 2, m_MN = 2\<rparr>
   \<and> Inverse eigen_inverse \<lparr>m_vals = [1, 2 :: real], m_M = 1, m_N = 2, m_MN = 2\<rparr>
       = Inl (Fatal ''the inverse operation only works for square matrix'')
   \<and> Det eigen_determinant \<lparr>m_vals = [1, 2 :: real], m_M = 1, m_N = 2, m_MN = 2\<rparr>
       = eigen_determinant
           \<lparr>e_rows = 1, e_cols = 2, e_coeffs = [(0, 0) \<mapsto> 1, (0, 1) \<mapsto> 2]\<rparr>
   \<and> Det (\<lambda>Mat. Inr 0) \<lparr>m_vals = [1, 2 :: real], m_M = 1, m_N = 2, m_MN = 2\<rparr> = Inr 0"
  by (simp add: Inverse_def Det_def fatal_def eigen_new_def eigen_fill_def coeffRef_assign_def
      run_simps)



text \<open>
  The invariant has a second limit, the range of \<open>int\<close>. \<open>Resize(65536,65536)\<close> on a
  default-constructed matrix returns with both dimensions \<open>65536\<close>, with \<open>_MN = 0\<close> and
  with an empty buffer, because the \<open>int\<close> product of its arguments is \<open>0\<close>.
\<close>

lemma Resize_beyond_int_range:
  "\<not> int_range (65536 * 65536)
   \<and> Resize (MatrixXd_default :: real MatrixXd) 65536 65536
       = Inr \<lparr>m_vals = [], m_M = 65536, m_N = 65536, m_MN = 0\<rparr>
   \<and> \<not> buffer_inv \<lparr>m_vals = ([] :: real list), m_M = 65536, m_N = 65536, m_MN = 0\<rparr>"
  by (simp add: Resize_def int_range_def buffer_inv_def run_simps)



end
